theory Spec2Isabelle
  imports Main "HOL-Library.Word"
begin

section \<open>Python values, exceptions and byte strings\<close>

text \<open>
  The program is the class \<open>Message\<close> of \<open>libclient.py\<close>: the client side of a
  length-prefixed, AES-GCM protected framing protocol, driven by a selector.
  A byte string (\<open>bytes\<close>) is a list of 8-bit words; Python's unbounded, here never
  negative, integers are \<open>nat\<close>.
\<close>

type_synonym byte = "8 word"
type_synonym bytes = "byte list"

text \<open>The exceptions the methods can raise, by their Python class.\<close>

datatype exn =
    UnboundLocalError
  | TypeError
  | ValueError
  | OverflowError
  | RuntimeError
  | AttributeError
  | KeyError

text \<open>
  The two kinds of value the name \<open>len\<close> is bound to in this program: the builtin
  function, and a byte string (a slice of a header, or an encoded length).
\<close>

datatype pyval = builtin_len | pybytes bytes

text \<open>
  Python decides at compile time which names are local to a function: a name assigned
  anywhere in the body is a local of the whole body. Both \<open>_create_message\<close> (line 99)
  and \<open>process_response\<close> (line 191) assign \<open>len\<close>, so in both every use of
  \<open>len\<close> reads the local slot and never the builtin. A slot is \<open>None\<close> until its
  first assignment. \<open>call_local slot arg\<close> is the expression \<open>name(arg)\<close> for a
  local \<open>name\<close> and a byte string \<open>arg\<close>: reading an unassigned slot raises
  UnboundLocalError, calling a byte string raises TypeError (bytes are not callable),
  calling the builtin returns the length.
\<close>

fun call_local :: "pyval option \<Rightarrow> bytes \<Rightarrow> exn + nat" where
  "call_local None arg = Inl UnboundLocalError"
| "call_local (Some builtin_len) arg = Inr (length arg)"
| "call_local (Some (pybytes b)) arg = Inl TypeError"

text \<open>\<open>xs[i:j]\<close> for non-negative \<open>i\<close> and \<open>j\<close>; out-of-range bounds are clipped.\<close>

definition slice :: "nat \<Rightarrow> nat \<Rightarrow> bytes \<Rightarrow> bytes" where
  "slice i j xs = drop i (take j xs)"

text \<open>\<open>int.from_bytes(b, byteorder='big')\<close>.\<close>

definition from_bytes :: "bytes \<Rightarrow> nat" where
  "from_bytes b = foldl (\<lambda>acc x. acc * 256 + unat x) 0 b"

text \<open>\<open>n.to_bytes(2, byteorder='big')\<close>: OverflowError when \<open>n\<close> needs more than 2 bytes.\<close>

definition to_bytes2 :: "nat \<Rightarrow> exn + bytes" where
  "to_bytes2 n =
     (if n < 65536 then Inr [of_nat (n div 256), of_nat (n mod 256)] else Inl OverflowError)"

section \<open>The connection object and its surroundings\<close>

datatype events = EVENT_READ | EVENT_WRITE | EVENT_READ_WRITE

text \<open>What \<open>print\<close> writes, one constructor per message of the source.\<close>

datatype line =
    Closing_connection
  | Error_unregister
  | Warning_length_wrong
  | Expecting_sqn nat
  | Error_sqn_too_old
  | Processing_completed
  | Sqn_verified
  | Decryption_attempted
  | Error_operation_failed
  | Operation_successful
  | Payload bytes

text \<open>\<open>request["content"]\<close>: the keyword arguments of \<open>_create_message\<close>.\<close>

record content =
  action :: string
  val :: bytes

text \<open>
  The attributes of a \<open>Message\<close> (the leading underscore of a private attribute is
  dropped), and the three things outside the object that its methods change: the
  selector's registration of the socket (\<open>None\<close>: not registered), whether the
  socket has been closed, and standard output. \<open>self_sock\<close> is \<open>False\<close> once
  \<open>self.sock\<close> has been set to \<open>None\<close>.
\<close>

record message =
  self_sock :: bool
  self_request :: content
  self_recv_buffer :: bytes
  self_send_buffer :: bytes
  self_request_queued :: bool
  self_key :: "bytes option"
  self_header_len :: nat
  self_authtag_len :: nat
  self_sqn :: nat
  self_rcvsqn :: nat
  selector_events :: "events option"
  socket_closed :: bool
  stdout :: "line list"

text \<open>
  A method either raises (\<open>Inl\<close>: the exception and the state at the raise) or returns
  (\<open>Inr\<close>).
\<close>

type_synonym outcome = "(exn \<times> message) + message"

text \<open>Statement sequencing: the rest runs only when the first part did not raise.\<close>

definition then_run :: "outcome \<Rightarrow> (message \<Rightarrow> (exn \<times> message) + 'a) \<Rightarrow> (exn \<times> message) + 'a" where
  "then_run r rest = (case r of Inl e \<Rightarrow> Inl e | Inr self \<Rightarrow> rest self)"

text \<open>An expression that may raise, evaluated in state \<open>self\<close>.\<close>

definition try_expr :: "exn + 'v \<Rightarrow> message \<Rightarrow> ('v \<Rightarrow> (exn \<times> message) + 'a) \<Rightarrow> (exn \<times> message) + 'a" where
  "try_expr x self rest = (case x of Inl e \<Rightarrow> Inl (e, self) | Inr v \<Rightarrow> rest v)"

definition print :: "line \<Rightarrow> message \<Rightarrow> message" where
  "print l self = self\<lparr>stdout := stdout self @ [l]\<rparr>"

text \<open>
  The external collaborators, taken as parameters: the random source, AES-GCM
  (\<open>AES.new\<close> may raise; \<open>decrypt_and_verify\<close> returns \<open>None\<close> when it raises) and
  RSA-OAEP under the key read from \<open>pubkey.pem\<close> (reading, importing or encrypting
  may raise). The key argument is \<open>self.key\<close>, which is \<open>None\<close> before a login.
\<close>

record extern =
  get_random_bytes :: "nat \<Rightarrow> bytes"
  aes_new :: "bytes option \<Rightarrow> bytes \<Rightarrow> exn option"
  encrypt_and_digest :: "bytes option \<Rightarrow> bytes \<Rightarrow> bytes \<Rightarrow> bytes \<Rightarrow> bytes \<times> bytes"
  decrypt_and_verify :: "bytes option \<Rightarrow> bytes \<Rightarrow> bytes \<Rightarrow> bytes \<Rightarrow> bytes \<Rightarrow> bytes option"
  rsa_encrypt :: "bytes option \<Rightarrow> exn + bytes"

text \<open>What the non-blocking \<open>sock.recv(4096)\<close> and \<open>sock.send\<close> did.\<close>

datatype recv_outcome = recv_BlockingIOError | recv_data bytes

datatype send_outcome = send_BlockingIOError | sent nat

section \<open>The methods of \<open>Message\<close>\<close>

text \<open>
  \<open>__init__\<close> (lines 12-29). The caller passes a socket and the selector, whose
  registration of the socket is the parameter \<open>reg\<close>.
\<close>

definition init :: "events option \<Rightarrow> content \<Rightarrow> message" where
  "init reg req =
     \<lparr>self_sock = True, self_request = req, self_recv_buffer = [], self_send_buffer = [],
      self_request_queued = False, self_key = None, self_header_len = 16,
      self_authtag_len = 12, self_sqn = 0, self_rcvsqn = 0,
      selector_events = reg, socket_closed = False, stdout = []\<rparr>"

text \<open>
  \<open>selector.modify(self.sock, events, data=self)\<close>: ValueError for a file object that
  is \<open>None\<close>, KeyError for a socket that is not registered.
\<close>

definition selector_modify :: "events \<Rightarrow> message \<Rightarrow> outcome" where
  "selector_modify ev self =
     (if \<not> self_sock self then Inl (ValueError, self)
      else case selector_events self of
             None \<Rightarrow> Inl (KeyError, self)
           | Some old \<Rightarrow> Inr (self\<lparr>selector_events := Some ev\<rparr>))"

text \<open>\<open>_set_selector_events_mask\<close> (lines 31-41).\<close>

definition u_set_selector_events_mask :: "string \<Rightarrow> message \<Rightarrow> outcome" where
  "u_set_selector_events_mask mode self =
     (if mode = ''r'' then selector_modify EVENT_READ self
      else if mode = ''w'' then selector_modify EVENT_WRITE self
      else if mode = ''rw'' then selector_modify EVENT_READ_WRITE self
      else Inl (ValueError, self))"

text \<open>
  \<open>_read\<close> (lines 43-54): BlockingIOError is swallowed, data is appended, an empty
  result raises \<open>RuntimeError("Peer closed.")\<close>.
\<close>

definition u_read :: "recv_outcome \<Rightarrow> message \<Rightarrow> outcome" where
  "u_read r self =
     (if \<not> self_sock self then Inl (AttributeError, self)
      else case r of
             recv_BlockingIOError \<Rightarrow> Inr self
           | recv_data data \<Rightarrow>
               if data \<noteq> [] then Inr (self\<lparr>self_recv_buffer := self_recv_buffer self @ data\<rparr>)
               else Inl (RuntimeError, self))"

text \<open>\<open>_write\<close> (lines 56-65).\<close>

definition u_write :: "send_outcome \<Rightarrow> message \<Rightarrow> outcome" where
  "u_write s self =
     (if self_send_buffer self \<noteq> [] then
        (if \<not> self_sock self then Inl (AttributeError, self)
         else case s of
                send_BlockingIOError \<Rightarrow> Inr self
              | sent n \<Rightarrow> Inr (self\<lparr>self_send_buffer := drop n (self_send_buffer self)\<rparr>))
      else Inr self)"

text \<open>
  \<open>_create_message\<close>, lines 86-130: everything after \<open>payload_length\<close> is known.
  \<open>msg_length\<close> is the value accumulated so far (256 for a login, else 0) and \<open>typ0\<close>
  the local \<open>_typ\<close> (empty unless the action is a login).
\<close>

definition create_message_frame ::
  "extern \<Rightarrow> string \<Rightarrow> bytes \<Rightarrow> nat \<Rightarrow> nat \<Rightarrow> bytes \<Rightarrow> message \<Rightarrow> (exn \<times> message) + (bytes \<times> message)" where
  "create_message_frame X act typ0 msg_length payload_length value self =
     (let msg_length = msg_length + self_header_len self + payload_length + self_authtag_len self;
          ver = [1, 0];
          typ = typ0
      in try_expr (to_bytes2 msg_length) self (\<lambda>len.
         try_expr (to_bytes2 (self_sqn self + 1)) self (\<lambda>sqn.
           let rnd = get_random_bytes X 6;
               rsv = [0, 0];
               header = ver @ typ @ len @ sqn @ rnd @ rsv;
               nonce = sqn @ rnd
           in case aes_new X (self_key self) nonce of
                Some e \<Rightarrow> Inl (e, self)
              | None \<Rightarrow>
                  (let (encrypted_payload, authtag) =
                         encrypt_and_digest X (self_key self) nonce header value;
                       msg = header @ encrypted_payload @ authtag
                   in if act = ''login'' then
                        try_expr (rsa_encrypt X (self_key self)) self (\<lambda>etk.
                          Inr (msg @ etk, self\<lparr>self_sqn := self_sqn self + 1\<rparr>))
                      else Inr (msg, self\<lparr>self_sqn := self_sqn self + 1\<rparr>)))))"

text \<open>
  \<open>_create_message\<close> (lines 67-130). The local \<open>len\<close> is assigned at line 99 only,
  so at line 80, \<open>payload_length = len(value)\<close>, its slot is still unassigned.
\<close>

definition u_create_message ::
  "extern \<Rightarrow> string \<Rightarrow> bytes \<Rightarrow> message \<Rightarrow> (exn \<times> message) + (bytes \<times> message)" where
  "u_create_message X act value self =
     (let len = None;
          msg_length = 0;
          typ0 = [];
          (msg_length, typ0, self) =
            (if act = ''login''
             then (msg_length + 256, [0, 0], self\<lparr>self_key := Some (get_random_bytes X 32)\<rparr>)
             else (msg_length, typ0, self))
      in try_expr (call_local len value) self (\<lambda>payload_length.
           create_message_frame X act typ0 msg_length payload_length value self))"

text \<open>
  \<open>close\<close> (lines 158-174). Any exception of \<open>selector.unregister\<close> is caught and
  printed (ValueError when \<open>self.sock\<close> is \<open>None\<close>, KeyError when the socket is not
  registered). Only OSError is caught around \<open>self.sock.close()\<close>, so the
  AttributeError of a second \<open>close\<close>, when \<open>self.sock\<close> is already \<open>None\<close>,
  propagates; \<open>self.sock = None\<close> runs either way. Closing a socket that is
  there is taken to succeed.
\<close>

definition close :: "message \<Rightarrow> outcome" where
  "close self0 =
     (let self = print Closing_connection self0;
          self = (if \<not> self_sock self then print Error_unregister self
                  else case selector_events self of
                         None \<Rightarrow> print Error_unregister self
                       | Some ev \<Rightarrow> self\<lparr>selector_events := None\<rparr>)
      in if \<not> self_sock self then Inl (AttributeError, self\<lparr>self_sock := False\<rparr>)
         else Inr (self\<lparr>socket_closed := True, self_sock := False\<rparr>))"

text \<open>\<open>queue_request\<close> (lines 176-181).\<close>

definition queue_request :: "extern \<Rightarrow> message \<Rightarrow> outcome" where
  "queue_request X self =
     (let content = self_request self
      in case u_create_message X (action content) (val content) self of
           Inl e \<Rightarrow> Inl e
         | Inr (msg, self) \<Rightarrow>
             Inr (self\<lparr>self_send_buffer := self_send_buffer self @ msg,
                       self_request_queued := True\<rparr>))"

text \<open>
  \<open>process_response\<close>, lines 222-229: advance the receive counter, consume the
  buffer and print the payload. The local \<open>payload\<close> is assigned only when
  \<open>decrypt_and_verify\<close> returned; \<open>print(payload)\<close> with the slot unassigned
  raises UnboundLocalError.
\<close>

definition accept_frame :: "bytes option \<Rightarrow> nat \<Rightarrow> message \<Rightarrow> outcome" where
  "accept_frame payload msg_len self0 =
     (let self = print Operation_successful self0;
          self = self\<lparr>self_rcvsqn := self_rcvsqn self + 1\<rparr>;
          self = self\<lparr>self_recv_buffer := drop msg_len (self_recv_buffer self)\<rparr>
      in case payload of
           None \<Rightarrow> Inl (UnboundLocalError, self)
         | Some p \<Rightarrow> Inr (print (Payload p) self))"

text \<open>
  \<open>process_response\<close>, lines 211-221, followed by the lines above: verify and
  decrypt. \<open>AES.new\<close> is outside the \<open>try\<close>. \<open>close()\<close> in the handler does not
  leave the function: the statements after the \<open>try\<close> still run, with \<open>payload\<close>
  unassigned.
\<close>

definition verify_and_decrypt ::
  "extern \<Rightarrow> bytes \<Rightarrow> bytes \<Rightarrow> bytes \<Rightarrow> bytes \<Rightarrow> bytes \<Rightarrow> nat \<Rightarrow> message \<Rightarrow> outcome" where
  "verify_and_decrypt X header authtag encrypted_payload sqn rnd msg_len self0 =
     (let self = print Decryption_attempted self0;
          nonce = sqn @ rnd
      in case aes_new X (self_key self) nonce of
           Some e \<Rightarrow> Inl (e, self)
         | None \<Rightarrow>
             (case decrypt_and_verify X (self_key self) nonce header encrypted_payload authtag of
                None \<Rightarrow>
                  then_run (close (print Processing_completed (print Error_operation_failed self)))
                    (accept_frame None msg_len)
              | Some payload \<Rightarrow> accept_frame (Some payload) msg_len self))"

text \<open>
  \<open>process_response\<close>, lines 202-209, followed by the lines above: the sequence
  number check. \<open>close()\<close> does not leave the function here either.
\<close>

definition check_sequence_number ::
  "extern \<Rightarrow> bytes \<Rightarrow> bytes \<Rightarrow> bytes \<Rightarrow> bytes \<Rightarrow> bytes \<Rightarrow> nat \<Rightarrow> message \<Rightarrow> outcome" where
  "check_sequence_number X header authtag encrypted_payload sqn rnd msg_len self0 =
     (let self = print (Expecting_sqn (self_rcvsqn self0 + 1)) self0;
          sndsqn = from_bytes sqn
      in then_run
           (if sndsqn \<le> self_rcvsqn self
            then close (print Processing_completed (print Error_sqn_too_old self))
            else Inr self)
           (\<lambda>self. verify_and_decrypt X header authtag encrypted_payload sqn rnd msg_len
                      (print Sqn_verified self)))"

text \<open>
  \<open>process_response\<close>, lines 198-200, followed by the lines above: the comparison of
  \<open>msg_len\<close> with the header's length field \<open>len\<close>.
\<close>

definition check_msg_length ::
  "extern \<Rightarrow> bytes \<Rightarrow> bytes \<Rightarrow> bytes \<Rightarrow> bytes \<Rightarrow> bytes \<Rightarrow> bytes \<Rightarrow> nat \<Rightarrow> message \<Rightarrow> outcome" where
  "check_msg_length X header authtag encrypted_payload len sqn rnd msg_len self =
     then_run
       (if msg_len \<noteq> from_bytes len then close (print Warning_length_wrong self) else Inr self)
       (check_sequence_number X header authtag encrypted_payload sqn rnd msg_len)"

text \<open>
  \<open>process_response\<close> (lines 183-229). Line 191 binds the local \<open>len\<close> to the
  slice \<open>header[4:6]\<close>; line 197, \<open>msg_len = len(msg)\<close>, then calls that local.
  \<open>msg[-12:]\<close> is the last 12 bytes (all of a shorter \<open>msg\<close>), \<open>msg[16:-12]\<close>
  what lies between.
\<close>

definition process_response :: "extern \<Rightarrow> message \<Rightarrow> outcome" where
  "process_response X self =
     (let msg = self_recv_buffer self;
          header = slice 0 16 msg;
          authtag = drop (length msg - 12) msg;
          encrypted_payload = slice 16 (length msg - 12) msg;
          ver = slice 0 2 header;
          typ = slice 2 4 header;
          len = slice 4 6 header;
          sqn = slice 6 8 header;
          rnd = slice 8 14 header;
          rsv = slice 14 16 header
      in try_expr (call_local (Some (pybytes len)) msg) self (\<lambda>msg_len.
           check_msg_length X header authtag encrypted_payload len sqn rnd msg_len self))"

text \<open>\<open>read\<close> (lines 138-145).\<close>

definition read :: "extern \<Rightarrow> recv_outcome \<Rightarrow> message \<Rightarrow> outcome" where
  "read X r self =
     then_run (u_read r self) (\<lambda>self.
     then_run (process_response X self) (\<lambda>self.
       if self_recv_buffer self = [] then u_set_selector_events_mask ''w'' self
       else Inr self))"

text \<open>
  \<open>write\<close> (lines 147-156); \<open>write\<close> itself is a reserved word of the theory
  language.
\<close>

definition write_m :: "extern \<Rightarrow> send_outcome \<Rightarrow> message \<Rightarrow> outcome" where
  "write_m X s self =
     then_run (if \<not> self_request_queued self then queue_request X self else Inr self) (\<lambda>self.
     then_run (u_write s self) (\<lambda>self.
       if self_request_queued self then
         (if self_send_buffer self = [] then u_set_selector_events_mask ''r'' self
          else Inr self)
       else Inr self))"

text \<open>
  \<open>process_events\<close> (lines 132-136); \<open>ready\<close> is the argument \<open>mask\<close>, the
  set of ready events the selector reported.
\<close>

definition process_events :: "extern \<Rightarrow> events \<Rightarrow> recv_outcome \<Rightarrow> send_outcome \<Rightarrow> message \<Rightarrow> outcome" where
  "process_events X ready r s self =
     then_run (if ready = EVENT_READ \<or> ready = EVENT_READ_WRITE then read X r self else Inr self)
       (\<lambda>self. if ready = EVENT_WRITE \<or> ready = EVENT_READ_WRITE then write_m X s self
                else Inr self)"

section \<open>A stand-in for the external library\<close>

text \<open>
  Concrete inputs need some library. This one is for evaluation only and is no
  cipher: it shifts every byte by one and uses, as the 12-byte tag, the sum of all
  bytes of key, nonce, header and ciphertext, so that changing any one byte of them
  changes the tag. Its \<open>AES.new\<close> refuses what the library refuses, in the
  library's order: an empty nonce (ValueError), then a key that is \<open>None\<close>
  (TypeError) or not of 16, 24 or 32 bytes (ValueError). No theorem about all
  libraries \<open>X\<close> depends on it.
\<close>

definition toy_tag :: "bytes option \<Rightarrow> bytes \<Rightarrow> bytes \<Rightarrow> bytes \<Rightarrow> bytes" where
  "toy_tag k nonce aad ct =
     replicate 12 (sum_list ((case k of None \<Rightarrow> [] | Some kb \<Rightarrow> kb) @ nonce @ aad @ ct))"

definition toy :: extern where
  "toy =
     \<lparr>get_random_bytes = (\<lambda>n. replicate n 7),
      aes_new = (\<lambda>k nonce.
                   if nonce = [] then Some ValueError
                   else case k of
                          None \<Rightarrow> Some TypeError
                        | Some kb \<Rightarrow>
                            if length kb = 16 \<or> length kb = 24 \<or> length kb = 32 then None
                            else Some ValueError),
      encrypt_and_digest = (\<lambda>k nonce aad pt.
                   (map (\<lambda>b. b + 1) pt, toy_tag k nonce aad (map (\<lambda>b. b + 1) pt))),
      decrypt_and_verify = (\<lambda>k nonce aad ct tag.
                   if tag = toy_tag k nonce aad ct then Some (map (\<lambda>b. b - 1) ct) else None),
      rsa_encrypt = (\<lambda>k. case k of
                   None \<Rightarrow> Inl TypeError
                 | Some kb \<Rightarrow> Inr (replicate 256 9))\<rparr>"

section \<open>Example inputs\<close>

text \<open>
  A session that holds a 32-byte key and has sent and received nothing, and the frame
  that the wire format prescribes, under the stand-in library, for the payload
  \<open>hi\<close> with sequence number 1: version 1.0, type 0, length 30, sqn 1, six random
  bytes, two reserved bytes, the two ciphertext bytes and the 12-byte tag.
\<close>

definition example_key :: bytes where
  "example_key = replicate 32 7"

definition example_session :: message where
  "example_session =
     (init (Some EVENT_READ) \<lparr>action = ''login'', val = []\<rparr>)\<lparr>self_key := Some example_key\<rparr>"

definition example_frame :: bytes where
  "example_frame =
     [1, 0, 0, 0, 0, 30, 0, 1, 7, 7, 7, 7, 7, 7, 0, 0, 105, 106,
      40, 40, 40, 40, 40, 40, 40, 40, 40, 40, 40, 40]"

text \<open>A connection object as \<open>__init__\<close> leaves it, with a login request to send.\<close>

definition example_login :: message where
  "example_login = init (Some EVENT_WRITE) \<lparr>action = ''login'', val = [104, 105]\<rparr>"

text \<open>
  \<open>process_response\<close>, lines 198-229, for a buffer and a value of \<open>msg_len\<close>: the
  statements behind line 197, with the slices of lines 186-194.
\<close>

definition lines_198_229 :: "extern \<Rightarrow> nat \<Rightarrow> message \<Rightarrow> outcome" where
  "lines_198_229 X msg_len self =
     (let msg = self_recv_buffer self;
          header = slice 0 16 msg
      in check_msg_length X header (drop (length msg - 12) msg)
           (slice 16 (length msg - 12) msg) (slice 4 6 header) (slice 6 8 header)
           (slice 8 14 header) msg_len self)"

section \<open>Runs of read-ready events\<close>




section \<open>What calling the local \<open>len\<close> does\<close>

lemma process_response_raises:
  "process_response X self = Inl (TypeError, self)"
  by (simp add: process_response_def try_expr_def Let_def)

lemma u_create_message_raises:
  "u_create_message X act value self =
     Inl (UnboundLocalError,
          if act = ''login'' then self\<lparr>self_key := Some (get_random_bytes X 32)\<rparr> else self)"
  by (simp add: u_create_message_def try_expr_def Let_def)

lemma process_response_unfold:
  "process_response X self =
     try_expr
       (call_local (Some (pybytes (slice 4 6 (slice 0 16 (self_recv_buffer self)))))
          (self_recv_buffer self))
       self (\<lambda>msg_len. lines_198_229 X msg_len self)"
  by (simp add: process_response_def lines_198_229_def Let_def)

lemma read_never_returns:
  "\<exists>e self'. read X r self = Inl (e, self') \<and> stdout self' = stdout self"
proof (cases r)
  case recv_BlockingIOError
  then show ?thesis
    by (simp add: read_def u_read_def then_run_def process_response_raises)
next
  case (recv_data d)
  then show ?thesis
    by (simp add: read_def u_read_def then_run_def process_response_raises)
qed




section \<open>The statements behind the two raises\<close>

text \<open>
  Neither raise can be avoided, so the statements behind them never run. What they
  would do is recorded here on the example inputs, each as an evaluation of the
  definitions above: it tells what else separates the program from its description.
\<close>

lemma replicate_6: "replicate 6 x = [x, x, x, x, x, x]"
  by (simp add: numeral_eq_Suc)

lemma replicate_12: "replicate 12 x = [x, x, x, x, x, x, x, x, x, x, x, x]"
  by (simp add: numeral_eq_Suc)

lemmas run_defs = then_run_def try_expr_def print_def close_def Let_def slice_def from_bytes_def
  to_bytes2_def toy_def toy_tag_def sum_list_replicate replicate_6 replicate_12

lemmas response_defs = lines_198_229_def check_msg_length_def check_sequence_number_def
  verify_and_decrypt_def accept_frame_def

lemmas example_defs = example_session_def example_key_def example_frame_def init_def

text \<open>
  Lines 86-130 build the example frame from the payload \<open>hi\<close> when the type field
  is the two bytes of a login.
\<close>

lemma example_frame_built:
  "create_message_frame toy ''data'' [0, 0] 0 2 [104, 105] example_session =
     Inr (example_frame, example_session\<lparr>self_sqn := 1\<rparr>)"
  by (simp add: create_message_frame_def example_defs run_defs)

text \<open>
  For an action other than a login, \<open>_typ\<close> is empty: the header has 14 bytes and
  the frame 28, while its length field says 30.
\<close>

lemma frame_without_type_field:
  "create_message_frame toy ''data'' [] 0 2 [104, 105] example_session =
     Inr ([1, 0, 0, 30, 0, 1, 7, 7, 7, 7, 7, 7, 0, 0, 105, 106,
           40, 40, 40, 40, 40, 40, 40, 40, 40, 40, 40, 40],
          example_session\<lparr>self_sqn := 1\<rparr>)"
  by (simp add: create_message_frame_def example_defs run_defs)

text \<open>Lines 198-229 accept the example frame and print its payload.\<close>

lemma example_frame_behind_the_raise:
  "lines_198_229 toy 30 (example_session\<lparr>self_recv_buffer := example_frame\<rparr>) =
     Inr (example_session\<lparr>self_recv_buffer := [], self_rcvsqn := 1,
            stdout := [Expecting_sqn 1, Sqn_verified, Decryption_attempted,
                       Operation_successful, Payload [104, 105]]\<rparr>)"
  by (simp add: response_defs example_defs run_defs)

text \<open>
  A changed ciphertext byte fails the tag check and \<open>close()\<close> runs, but the function
  goes on: the receive counter advances and the buffer is consumed before
  \<open>print(payload)\<close> raises UnboundLocalError.
\<close>

lemma tampered_frame_behind_the_raise:
  "lines_198_229 toy 30 (example_session\<lparr>self_recv_buffer := example_frame[17 := 107]\<rparr>) =
     Inl (UnboundLocalError,
          example_session\<lparr>self_recv_buffer := [], self_rcvsqn := 1, self_sock := False,
            selector_events := None, socket_closed := True,
            stdout := [Expecting_sqn 1, Sqn_verified, Decryption_attempted,
                       Error_operation_failed, Processing_completed, Closing_connection,
                       Operation_successful]\<rparr>)"
  by (simp add: response_defs example_defs run_defs)

text \<open>
  A wrong length field is reported and \<open>close()\<close> runs, but the sequence check and
  the tag check follow all the same; the second \<open>close()\<close> raises AttributeError.
\<close>

lemma wrong_length_behind_the_raise:
  "lines_198_229 toy 30 (example_session\<lparr>self_recv_buffer := example_frame[5 := 31]\<rparr>) =
     Inl (AttributeError,
          example_session\<lparr>self_recv_buffer := example_frame[5 := 31], self_sock := False,
            selector_events := None, socket_closed := True,
            stdout := [Warning_length_wrong, Closing_connection, Expecting_sqn 1,
                       Sqn_verified, Decryption_attempted, Error_operation_failed,
                       Processing_completed, Closing_connection, Error_unregister]\<rparr>)"
  by (simp add: response_defs example_defs run_defs)

text \<open>
  Were the receive counter 1 already, which no run brings about, the example frame's
  sequence number would be reported as too old and \<open>close()\<close> would run, but the
  frame would then be verified, counted and its payload printed.
\<close>

lemma replay_behind_the_raise:
  "lines_198_229 toy 30 (example_session\<lparr>self_rcvsqn := 1, self_recv_buffer := example_frame\<rparr>) =
     Inr (example_session\<lparr>self_recv_buffer := [], self_rcvsqn := 2, self_sock := False,
            selector_events := None, socket_closed := True,
            stdout := [Expecting_sqn 2, Error_sqn_too_old, Processing_completed,
                       Closing_connection, Sqn_verified, Decryption_attempted,
                       Operation_successful, Payload [104, 105]]\<rparr>)"
  by (simp add: response_defs example_defs run_defs)

section \<open>The claims\<close>

text \<open>
  C1 says that decoding an encoded frame with the same key, and the sequence number
  before it as the last one received, returns the plaintext. The program does not:
  for the payload \<open>hi\<close> \<open>_create_message\<close> raises UnboundLocalError at line 80
  and builds no frame, and \<open>process_response\<close>, given the frame the wire format
  prescribes for that payload, raises TypeError at line 197.
\<close>

theorem roundtrip_raises_at_both_ends:
  "u_create_message toy ''data'' [104, 105] example_session =
     Inl (UnboundLocalError, example_session)
   \<and> process_response toy (example_session\<lparr>self_recv_buffer := example_frame\<rparr>) =
     Inl (TypeError, example_session\<lparr>self_recv_buffer := example_frame\<rparr>)"
  by (simp add: u_create_message_raises process_response_raises)

text \<open>
  C2 says that a frame with one byte of its header or ciphertext changed fails the
  tag verification. The program never reaches the verification: with ciphertext byte
  17 or header byte 1 of the example frame changed, \<open>process_response\<close> raises
  TypeError at line 197 and leaves the connection object as it was, nothing printed and
  nothing closed.
\<close>

theorem tampered_frame_raises_TypeError:
  "example_frame[17 := 107] \<noteq> example_frame
   \<and> process_response toy (example_session\<lparr>self_recv_buffer := example_frame[17 := 107]\<rparr>) =
     Inl (TypeError, example_session\<lparr>self_recv_buffer := example_frame[17 := 107]\<rparr>)
   \<and> example_frame[1 := 1] \<noteq> example_frame
   \<and> process_response toy (example_session\<lparr>self_recv_buffer := example_frame[1 := 1]\<rparr>) =
     Inl (TypeError, example_session\<lparr>self_recv_buffer := example_frame[1 := 1]\<rparr>)"
  by (simp add: process_response_raises example_frame_def)

text \<open>
  C3 says that every frame \<open>_create_message\<close> produces carries its own total length,
  a login frame ending with the wrapped session key. The program produces no frame: a
  login with the payload \<open>hi\<close> stores a fresh key and then raises UnboundLocalError
  at line 80.
\<close>

theorem login_frame_is_never_built:
  "u_create_message toy ''login'' [104, 105] example_login =
     Inl (UnboundLocalError, example_login\<lparr>self_key := Some (replicate 32 7)\<rparr>)"
  by (simp add: u_create_message_raises toy_def)

text \<open>
  C4 says that the send counter starts at 0 and that every call of
  \<open>_create_message\<close> embeds the counter plus one and leaves the counter increased by
  one. The counter does start at 0, but the first write-ready event of a new
  connection ends in the UnboundLocalError of \<open>_create_message\<close>, with the counter
  still 0 and nothing queued for sending.
\<close>

theorem send_counter_stays_at_zero:
  "self_sqn example_login = 0
   \<and> write_m toy (sent 0) example_login =
     Inl (UnboundLocalError, example_login\<lparr>self_key := Some (replicate 32 7)\<rparr>)
   \<and> self_sqn (example_login\<lparr>self_key := Some (replicate 32 7)\<rparr>) = 0
   \<and> self_send_buffer (example_login\<lparr>self_key := Some (replicate 32 7)\<rparr>) = []"
  by (simp add: write_m_def queue_request_def then_run_def u_create_message_raises toy_def
        example_login_def init_def)


text \<open>
  C6 says that a message whose length field differs from its length fails with the
  framing error, before any cryptographic check. In the program the comparison of
  line 198 is never reached: the example frame with its length field changed to 31
  raises TypeError at line 197, with no warning printed and nothing closed.
\<close>

theorem wrong_length_field_raises_TypeError:
  "from_bytes (slice 4 6 (slice 0 16 (example_frame[5 := 31]))) = 31
   \<and> length (example_frame[5 := 31]) = 30
   \<and> process_response toy (example_session\<lparr>self_recv_buffer := example_frame[5 := 31]\<rparr>) =
     Inl (TypeError, example_session\<lparr>self_recv_buffer := example_frame[5 := 31]\<rparr>)"
  by (simp add: process_response_raises example_frame_def from_bytes_def slice_def)

text \<open>
  C7 says that every decode error deregisters the connection and closes the socket.
  In the program the read-ready path on a tampered frame raises TypeError and leaves
  the socket registered, open and referenced: no \<open>close()\<close> of
  \<open>process_response\<close> is reached.
\<close>

theorem decode_error_leaves_connection_open:
  "read toy (recv_data (example_frame[17 := 107])) example_session =
     Inl (TypeError, example_session\<lparr>self_recv_buffer := example_frame[17 := 107]\<rparr>)
   \<and> selector_events (example_session\<lparr>self_recv_buffer := example_frame[17 := 107]\<rparr>) =
     Some EVENT_READ
   \<and> \<not> socket_closed (example_session\<lparr>self_recv_buffer := example_frame[17 := 107]\<rparr>)
   \<and> self_sock (example_session\<lparr>self_recv_buffer := example_frame[17 := 107]\<rparr>)"
  by (simp add: read_def u_read_def then_run_def process_response_raises example_defs)

text \<open>
  C8, as amended. In every execution of the read-ready path in which \<open>_read\<close>
  returns (the receive gave data or would have blocked), the inbound buffer, that is
  the old buffer followed by the bytes received, is handed to \<open>process_response\<close>
  at once and whatever its length; only then is the selector mask looked at. There is
  no comparison of the buffer with the header size or the declared length before.
\<close>

theorem read_parses_after_every_receive:
  assumes "u_read r self = Inr self'"
  shows "self_recv_buffer self' =
           self_recv_buffer self @ (case r of recv_BlockingIOError \<Rightarrow> [] | recv_data d \<Rightarrow> d)
         \<and> read X r self =
           then_run (process_response X self')
             (\<lambda>self. if self_recv_buffer self = [] then u_set_selector_events_mask ''w'' self
                      else Inr self)"
proof
  show "self_recv_buffer self' =
          self_recv_buffer self @ (case r of recv_BlockingIOError \<Rightarrow> [] | recv_data d \<Rightarrow> d)"
    using assms by (cases r) (auto simp: u_read_def split: if_splits)
next
  show "read X r self =
          then_run (process_response X self')
            (\<lambda>self. if self_recv_buffer self = [] then u_set_selector_events_mask ''w'' self
                     else Inr self)"
    using assms by (simp add: read_def then_run_def)
qed

text \<open>The theorem at a receive of five bytes on an empty buffer.\<close>

theorem read_parses_after_every_receive_witness:
  "u_read (recv_data [1, 0, 0, 0, 0]) example_session =
     Inr (example_session\<lparr>self_recv_buffer := [1, 0, 0, 0, 0]\<rparr>)
   \<and> read toy (recv_data [1, 0, 0, 0, 0]) example_session =
     then_run (process_response toy (example_session\<lparr>self_recv_buffer := [1, 0, 0, 0, 0]\<rparr>))
       (\<lambda>self. if self_recv_buffer self = [] then u_set_selector_events_mask ''w'' self
                else Inr self)"
proof -
  have h: "u_read (recv_data [1, 0, 0, 0, 0]) example_session =
             Inr (example_session\<lparr>self_recv_buffer := [1, 0, 0, 0, 0]\<rparr>)"
    by (simp add: u_read_def example_defs)
  show ?thesis
    using h read_parses_after_every_receive [OF h, of toy] by simp
qed

text \<open>
  C8 as stated fails: five bytes, less than a header, arrive on an empty buffer;
  \<open>_read\<close> returns with them buffered, and the read-ready path does not return to
  wait for more but is the run of \<open>process_response\<close> on these five bytes.
\<close>

theorem partial_frame_is_handed_to_process_response:
  "length [1, 0, 0, 0, 0 :: byte] < 16
   \<and> u_read (recv_data [1, 0, 0, 0, 0]) example_session =
     Inr (example_session\<lparr>self_recv_buffer := [1, 0, 0, 0, 0]\<rparr>)
   \<and> read toy (recv_data [1, 0, 0, 0, 0]) example_session =
     process_response toy (example_session\<lparr>self_recv_buffer := [1, 0, 0, 0, 0]\<rparr>)
   \<and> read toy (recv_data [1, 0, 0, 0, 0]) example_session =
     Inl (TypeError, example_session\<lparr>self_recv_buffer := [1, 0, 0, 0, 0]\<rparr>)"
  by (simp add: read_def u_read_def then_run_def process_response_raises example_defs)

text \<open>
  C9, as amended. A zero-length read is fatal: whenever the receive returns no data,
  \<open>_read\<close> raises \<open>RuntimeError("Peer closed.")\<close>, which leaves \<open>read\<close> and
  \<open>process_events\<close> at once, so that \<open>process_response\<close> is not run on the
  buffer and no write follows. The connection object, the selector and the socket are
  as they were: deregistering, closing and dropping the buffer are left to whoever
  catches the exception.
\<close>

theorem zero_length_read_raises_without_parsing:
  assumes "self_sock self"
  shows "u_read (recv_data []) self = Inl (RuntimeError, self)
         \<and> read X (recv_data []) self = Inl (RuntimeError, self)
         \<and> process_events X EVENT_READ (recv_data []) s self = Inl (RuntimeError, self)
         \<and> process_events X EVENT_READ_WRITE (recv_data []) s self = Inl (RuntimeError, self)"
  using assms by (simp add: process_events_def read_def u_read_def then_run_def)

text \<open>The theorem at a connection whose buffer holds five bytes of a frame.\<close>

theorem zero_length_read_raises_witness:
  "self_sock (example_session\<lparr>self_recv_buffer := [1, 0, 0, 0, 0]\<rparr>)
   \<and> read toy (recv_data []) (example_session\<lparr>self_recv_buffer := [1, 0, 0, 0, 0]\<rparr>) =
     Inl (RuntimeError, example_session\<lparr>self_recv_buffer := [1, 0, 0, 0, 0]\<rparr>)"
proof -
  have h: "self_sock (example_session\<lparr>self_recv_buffer := [1, 0, 0, 0, 0]\<rparr>)"
    by (simp add: example_defs)
  show ?thesis
    using h zero_length_read_raises_without_parsing [OF h, of toy] by simp
qed

text \<open>
  C9 as stated fails: after a zero-length read on a buffer of five bytes the socket is
  still registered with the selector and not closed, and the five bytes are still in
  the buffer.
\<close>

theorem zero_length_read_tears_nothing_down:
  "read toy (recv_data []) (example_session\<lparr>self_recv_buffer := [1, 0, 0, 0, 0]\<rparr>) =
     Inl (RuntimeError, example_session\<lparr>self_recv_buffer := [1, 0, 0, 0, 0]\<rparr>)
   \<and> selector_events (example_session\<lparr>self_recv_buffer := [1, 0, 0, 0, 0]\<rparr>) = Some EVENT_READ
   \<and> \<not> socket_closed (example_session\<lparr>self_recv_buffer := [1, 0, 0, 0, 0]\<rparr>)
   \<and> self_recv_buffer (example_session\<lparr>self_recv_buffer := [1, 0, 0, 0, 0]\<rparr>) = [1, 0, 0, 0, 0]"
  by (simp add: read_def u_read_def then_run_def example_defs)

text \<open>
  C10. In \<open>process_response\<close> the local \<open>len\<close> holds the length slice
  \<open>header[4:6]\<close> when \<open>msg_len = len(msg)\<close> runs, so for every inbound buffer,
  empty or not, and whatever the library does, \<open>process_response\<close> raises TypeError
  there, with the connection object as it was. No message is decoded: the read path
  never returns normally, and nothing is printed on it, a payload least of all.
\<close>

theorem process_response_always_raises_TypeError:
  "call_local (Some (pybytes (slice 4 6 (slice 0 16 (self_recv_buffer self)))))
     (self_recv_buffer self) = Inl TypeError
   \<and> process_response X self = Inl (TypeError, self)
   \<and> (\<exists>e self'. read X r self = Inl (e, self') \<and> stdout self' = stdout self)"
  using read_never_returns [of X r self] by (simp add: process_response_raises)

end
